theory Spec2Isabelle
  imports Complex_Main "HOL-Library.AList"
begin

section \<open>Strings and the platform's base64 functions\<close>

text \<open>
  A JavaScript string is a sequence of UTF-16 code units; a code unit is modelled by its
  numeric value. \<open>js\<close> turns an ASCII literal of the source into such a sequence.
\<close>

type_synonym jsstring = "nat list"

definition js :: "string \<Rightarrow> jsstring" where
  "js s = map of_char s"

datatype js_error = InvalidCharacterError | TypeError | SyntaxError | NetworkError | Error

text \<open>
  \<open>btoa\<close> and \<open>atob\<close> are functions of the runtime, not of the repository. They are
  modelled from the HTML standard: \<open>btoa\<close> throws InvalidCharacterError when a code unit is
  above U+00FF and otherwise returns the padded base64 text of the bytes; \<open>atob\<close> is the
  forgiving-base64 decode of the Infra standard (strip ASCII whitespace, drop one or two
  trailing \<open>=\<close> when the length is a multiple of four, fail on length 1 modulo 4 and on
  any character outside the alphabet, then decode six bits a character).
\<close>

definition b64_char :: "nat \<Rightarrow> nat" where
  "b64_char n =
     (if n < 26 then 65 + n
      else if n < 52 then 97 + (n - 26)
      else if n < 62 then 48 + (n - 52)
      else if n = 62 then 43 else 47)"

definition b64_value :: "nat \<Rightarrow> nat option" where
  "b64_value c =
     (if 65 \<le> c \<and> c \<le> 90 then Some (c - 65)
      else if 97 \<le> c \<and> c \<le> 122 then Some (c - 71)
      else if 48 \<le> c \<and> c \<le> 57 then Some (c + 4)
      else if c = 43 then Some 62
      else if c = 47 then Some 63
      else None)"

fun b64_groups :: "nat list \<Rightarrow> nat list" where
  "b64_groups (a # b # c # r) =
     [a div 4, (a mod 4) * 16 + b div 16, (b mod 16) * 4 + c div 64, c mod 64] @ b64_groups r"
| "b64_groups [a, b] = [a div 4, (a mod 4) * 16 + b div 16, (b mod 16) * 4]"
| "b64_groups [a] = [a div 4, (a mod 4) * 16]"
| "b64_groups [] = []"

fun b64_pad :: "nat list \<Rightarrow> nat" where
  "b64_pad (a # b # c # r) = b64_pad r"
| "b64_pad [a, b] = 1"
| "b64_pad [a] = 2"
| "b64_pad [] = 0"

definition base64_text :: "nat list \<Rightarrow> jsstring" where
  "base64_text bytes = map b64_char (b64_groups bytes) @ replicate (b64_pad bytes) 61"

definition btoa :: "jsstring \<Rightarrow> js_error + jsstring" where
  "btoa s =
     (if list_ex (\<lambda>c. 255 < c) s then Inl InvalidCharacterError else Inr (base64_text s))"

definition ascii_whitespace :: "nat \<Rightarrow> bool" where
  "ascii_whitespace c = (c = 9 \<or> c = 10 \<or> c = 12 \<or> c = 13 \<or> c = 32)"

definition strip_padding :: "jsstring \<Rightarrow> jsstring" where
  "strip_padding d =
     (if length d mod 4 = 0 \<and> d \<noteq> [] \<and> last d = 61
      then (if butlast d \<noteq> [] \<and> last (butlast d) = 61 then butlast (butlast d)
            else butlast d)
      else d)"

fun b64_bytes :: "nat list \<Rightarrow> nat list" where
  "b64_bytes (w # x # y # z # r) =
     [w * 4 + x div 16, (x mod 16) * 16 + y div 4, (y mod 4) * 64 + z] @ b64_bytes r"
| "b64_bytes [w, x, y] = [w * 4 + x div 16, (x mod 16) * 16 + y div 4]"
| "b64_bytes [w, x] = [w * 4 + x div 16]"
| "b64_bytes [w] = []"
| "b64_bytes [] = []"

definition atob :: "jsstring \<Rightarrow> js_error + jsstring" where
  "atob s =
     (let d = strip_padding (filter (\<lambda>c. \<not> ascii_whitespace c) s)
      in if length d mod 4 = 1 then Inl InvalidCharacterError
         else (case those (map b64_value d) of
                 None \<Rightarrow> Inl InvalidCharacterError
               | Some vs \<Rightarrow> Inr (b64_bytes vs)))"

section \<open>Identity and session layer\<close>

text \<open>\<open>String.prototype.split\<close> with a one-character separator: never the empty list.\<close>

fun split_on :: "nat \<Rightarrow> jsstring \<Rightarrow> jsstring list" where
  "split_on c [] = [[]]"
| "split_on c (x # xs) =
     (if x = c then [] # split_on c xs
      else (case split_on c xs of p # ps \<Rightarrow> (x # p) # ps | [] \<Rightarrow> [[x]]))"

text \<open>The decimal text of a non-negative integer, as a template literal prints \<open>Date.now()\<close>.\<close>

function digits :: "nat \<Rightarrow> jsstring" where
  "digits n = (if n < 10 then [48 + n] else digits (n div 10) @ [48 + n mod 10])"
  by pat_completeness auto
termination
  by (relation "measure (\<lambda>n. n)") auto

declare digits.simps [simp del]

text \<open>
  \<^verbatim>\<open>function generateToken(userId) { return btoa(`${userId}:${Date.now()}`); }\<close>
  The clock is an argument; the exception of \<open>btoa\<close> is the \<open>Inl\<close> result.
\<close>

definition generateToken :: "jsstring \<Rightarrow> nat \<Rightarrow> js_error + jsstring" where
  "generateToken userId now = btoa (userId @ [58] @ digits now)"

text \<open>
  \<^verbatim>\<open>function verifyToken(token) {
    try { const decoded = atob(token); const [userId] = decoded.split(':'); return userId; }
    catch { return null; } }\<close>
  \<open>None\<close> is the \<open>null\<close> of the catch branch.
\<close>

definition verifyToken :: "jsstring \<Rightarrow> jsstring option" where
  "verifyToken token =
     (case atob token of
        Inl e \<Rightarrow> None
      | Inr decoded \<Rightarrow> (case split_on 58 decoded of userId # rest \<Rightarrow> Some userId | [] \<Rightarrow> None))"

section \<open>JavaScript values\<close>

text \<open>
  The values a handler receives and hands on: the JSON values, as the body of a request
  and the store hold them, plus \<open>undefined\<close>. A number of a JSON text is a finite
  double, modelled by the real number it denotes (a literal beyond the range of doubles,
  such as \<open>1e999\<close>, is not a value of the model). What arithmetic makes of such
  numbers is the subject of \<open>jsnum\<close> below. An object is a finite map from property
  names to values; the order of its members plays no part in any handler.
\<close>

datatype jsval =
    JUndefined
  | JNull
  | JBool bool
  | JNum real
  | JStr jsstring
  | JArr "jsval list"
  | JObj "jsstring \<Rightarrow> jsval option"

type_synonym jsobject = "jsstring \<Rightarrow> jsval option"

text \<open>An object literal with ASCII property names.\<close>

definition obj :: "(string \<times> jsval) list \<Rightarrow> jsval" where
  "obj fs = JObj (map_of (map (\<lambda>(k, v). (js k, v)) fs))"

text \<open>ToBoolean, as \<open>!x\<close>, \<open>x || y\<close> and \<open>if (x)\<close> apply it.\<close>

fun truthy :: "jsval \<Rightarrow> bool" where
  "truthy JUndefined = False"
| "truthy JNull = False"
| "truthy (JBool b) = b"
| "truthy (JNum r) = (r \<noteq> 0)"
| "truthy (JStr s) = (s \<noteq> [])"
| "truthy (JArr xs) = True"
| "truthy (JObj m) = True"

definition js_or :: "jsval \<Rightarrow> jsval \<Rightarrow> jsval" where
  "js_or a b = (if truthy a then a else b)"

fun nullish :: "jsval \<Rightarrow> bool" where
  "nullish JUndefined = True"
| "nullish JNull = True"
| "nullish v = False"

text \<open>
  \<open>v.k\<close> for a receiver that is neither \<open>undefined\<close> nor \<open>null\<close> (on those the
  access throws, which each use site decides with \<open>nullish\<close>). The handlers read the
  names \<open>id\<close>, \<open>email\<close>, \<open>friends\<close>, \<open>xpLevel\<close> and the like; none of them is a
  property of an array, a string, a number or a boolean, so only an object answers.
\<close>

fun get_prop :: "jsval \<Rightarrow> jsstring \<Rightarrow> jsval" where
  "get_prop (JObj m) k = (case m k of Some v \<Rightarrow> v | None \<Rightarrow> JUndefined)"
| "get_prop v k = JUndefined"

text \<open>\<open>v[i]\<close> for a receiver that is neither \<open>undefined\<close> nor \<open>null\<close>.\<close>

fun get_index :: "jsval \<Rightarrow> nat \<Rightarrow> jsval" where
  "get_index (JArr xs) i = (if i < length xs then xs ! i else JUndefined)"
| "get_index (JStr s) i = (if i < length s then JStr [s ! i] else JUndefined)"
| "get_index (JObj m) i = (case m (digits i) of Some v \<Rightarrow> v | None \<Rightarrow> JUndefined)"
| "get_index v i = JUndefined"

text \<open>
  The own enumerable properties that a spread \<open>{...v}\<close> copies: the members of an
  object, the indexed elements of an array or string, nothing for the other values.
\<close>

fun own_props :: "jsval \<Rightarrow> jsobject" where
  "own_props (JObj m) = m"
| "own_props (JArr xs) = map_of (zip (map digits [0..<length xs]) xs)"
| "own_props (JStr s) = map_of (zip (map digits [0..<length s]) (map (\<lambda>c. JStr [c]) s))"
| "own_props v = Map.empty"

text \<open>
  \<open>===\<close> between two values that were parsed separately: two arrays or two objects are
  then never the same reference. \<open>same_value_zero\<close> is the comparison of
  \<open>Array.prototype.includes\<close>, which differs on \<open>NaN\<close> only, and no JSON value is
  \<open>NaN\<close>.
\<close>

fun strict_eq :: "jsval \<Rightarrow> jsval \<Rightarrow> bool" where
  "strict_eq JUndefined JUndefined = True"
| "strict_eq JNull JNull = True"
| "strict_eq (JBool a) (JBool b) = (a = b)"
| "strict_eq (JNum a) (JNum b) = (a = b)"
| "strict_eq (JStr a) (JStr b) = (a = b)"
| "strict_eq a b = False"

definition same_value_zero :: "jsval \<Rightarrow> jsval \<Rightarrow> bool" where
  "same_value_zero a b = strict_eq a b"


text \<open>
  A number inside a handler is a double: finite, an infinity, or \<open>NaN\<close>.
\<close>

datatype jsnum = Finite real | PlusInfinity | MinusInfinity | NaN

text \<open>
  What the runtime supplies and the repository does not define. The conversions are
  given by the language for the primitive cases, which the model writes out; the string
  forms of numbers, arrays and objects, the numeric reading of strings, arrays and
  objects, the JSON parser, the SHA-256 digest of the UTF-8 text and the message of an
  exception are parameters. So is \<open>fl\<close>, the rounding of IEEE 754 arithmetic: an
  operation on finite doubles returns \<open>fl\<close> of its exact result, which is the nearest
  double, or an infinity when the exact result is beyond the range.
\<close>

record platform =
  str_of :: "jsval \<Rightarrow> jsstring"
  num_of :: "jsval \<Rightarrow> jsnum"
  fl :: "real \<Rightarrow> jsnum"
  json_parse :: "jsstring \<Rightarrow> jsval option"
  digest :: "jsstring \<Rightarrow> nat list"
  message_of :: "js_error \<Rightarrow> jsstring"

fun to_string :: "platform \<Rightarrow> jsval \<Rightarrow> jsstring" where
  "to_string P (JStr s) = s"
| "to_string P v = str_of P v"

text \<open>The string form of a number, as a template literal prints it.\<close>

fun num_text :: "platform \<Rightarrow> jsnum \<Rightarrow> jsstring" where
  "num_text P (Finite r) = str_of P (JNum r)"
| "num_text P PlusInfinity = js ''Infinity''"
| "num_text P MinusInfinity = js ''-Infinity''"
| "num_text P NaN = js ''NaN''"

text \<open>ToNumber.\<close>

fun to_number :: "platform \<Rightarrow> jsval \<Rightarrow> jsnum" where
  "to_number P JUndefined = NaN"
| "to_number P JNull = Finite 0"
| "to_number P (JBool b) = Finite (if b then 1 else 0)"
| "to_number P (JNum r) = Finite r"
| "to_number P v = num_of P v"

text \<open>
  The sum, the difference and the product of two doubles. Between finite operands it is
  the rounded exact result; the other cases are those of IEEE 754.
\<close>

fun num_add :: "platform \<Rightarrow> jsnum \<Rightarrow> jsnum \<Rightarrow> jsnum" where
  "num_add P (Finite x) (Finite y) = fl P (x + y)"
| "num_add P NaN b = NaN"
| "num_add P a NaN = NaN"
| "num_add P PlusInfinity MinusInfinity = NaN"
| "num_add P MinusInfinity PlusInfinity = NaN"
| "num_add P PlusInfinity b = PlusInfinity"
| "num_add P MinusInfinity b = MinusInfinity"
| "num_add P a PlusInfinity = PlusInfinity"
| "num_add P a MinusInfinity = MinusInfinity"

fun num_neg :: "jsnum \<Rightarrow> jsnum" where
  "num_neg (Finite x) = Finite (- x)"
| "num_neg PlusInfinity = MinusInfinity"
| "num_neg MinusInfinity = PlusInfinity"
| "num_neg NaN = NaN"

definition num_sub :: "platform \<Rightarrow> jsnum \<Rightarrow> jsnum \<Rightarrow> jsnum" where
  "num_sub P a b = num_add P a (num_neg b)"

fun num_sign :: "jsnum \<Rightarrow> int" where
  "num_sign (Finite x) = (if 0 < x then 1 else if x < 0 then - 1 else 0)"
| "num_sign PlusInfinity = 1"
| "num_sign MinusInfinity = - 1"
| "num_sign NaN = 0"

fun num_mul :: "platform \<Rightarrow> jsnum \<Rightarrow> jsnum \<Rightarrow> jsnum" where
  "num_mul P (Finite x) (Finite y) = fl P (x * y)"
| "num_mul P a b =
     (if num_sign a * num_sign b = 0 then NaN
      else if 0 < num_sign a * num_sign b then PlusInfinity else MinusInfinity)"

text \<open>
  \<open>Math.floor\<close> (the floor of a double is a double) and \<open>Math.max(c, x)\<close> for a
  finite \<open>c\<close>.
\<close>

fun math_floor :: "jsnum \<Rightarrow> jsnum" where
  "math_floor (Finite x) = Finite (of_int \<lfloor>x\<rfloor>)"
| "math_floor n = n"

fun math_max :: "real \<Rightarrow> jsnum \<Rightarrow> jsnum" where
  "math_max c (Finite x) = Finite (max c x)"
| "math_max c PlusInfinity = PlusInfinity"
| "math_max c MinusInfinity = Finite c"
| "math_max c NaN = NaN"

text \<open>
  Every number a handler computes leaves it as JSON, in the value it stores or in the
  body it sends, and \<open>JSON.stringify\<close> writes \<open>null\<close> for \<open>NaN\<close> and for the
  infinities. This is the value that is then read.
\<close>

fun json_num :: "jsnum \<Rightarrow> jsval" where
  "json_num (Finite r) = JNum r"
| "json_num n = JNull"

text \<open>\<open>Number(x) || 0\<close>: the numeric reading, with \<open>NaN\<close> read as zero.\<close>

definition number_or_zero :: "platform \<Rightarrow> jsval \<Rightarrow> jsnum" where
  "number_or_zero P v = (case to_number P v of NaN \<Rightarrow> Finite 0 | n \<Rightarrow> n)"

text \<open>
  The operator \<open>+\<close>: when an operand is a string, or an array or object (whose primitive
  form is a string), the result is the concatenation of the string forms (\<open>Inl\<close>);
  otherwise the sum of the numeric readings (\<open>Inr\<close>). \<open>json_sum\<close> is the JSON form
  of the result.
\<close>

fun stringish :: "jsval \<Rightarrow> bool" where
  "stringish (JStr s) = True"
| "stringish (JArr xs) = True"
| "stringish (JObj m) = True"
| "stringish v = False"

definition js_plus :: "platform \<Rightarrow> jsval \<Rightarrow> jsval \<Rightarrow> jsstring + jsnum" where
  "js_plus P a b =
     (if stringish a \<or> stringish b then Inl (to_string P a @ to_string P b)
      else Inr (num_add P (to_number P a) (to_number P b)))"

fun json_sum :: "jsstring + jsnum \<Rightarrow> jsval" where
  "json_sum (Inl t) = JStr t"
| "json_sum (Inr n) = json_num n"

text \<open>\<open>Math.floor(x / 100)\<close> for the level shown beside an XP total, as JSON.\<close>

fun divide_by_100 :: "platform \<Rightarrow> jsnum \<Rightarrow> jsnum" where
  "divide_by_100 P (Finite x) = fl P (x / 100)"
| "divide_by_100 P n = n"

definition level_of :: "platform \<Rightarrow> jsval \<Rightarrow> jsval" where
  "level_of P x = json_num (math_floor (divide_by_100 P (to_number P x)))"




section \<open>Key-value store\<close>

text \<open>
  The module \<open>kv_store.tsx\<close> that the server imports is not among the sources; the spec
  gives its contract. The store is a list of entries, so that every order of a prefix
  scan is the scan of some store. Storage faults are considered only where a handler
  recovers from them.
\<close>

type_synonym kv = "(jsstring \<times> jsval) list"

text \<open>
  Modelled from the spec: \<open>get(key) -> value|absent\<close> of the missing \<open>kv_store.tsx\<close>.
  An absent key reads as \<open>undefined\<close>, which every handler tests for by truthiness.
\<close>

definition kv_get :: "kv \<Rightarrow> jsstring \<Rightarrow> jsval" where
  "kv_get s k = (case map_of s k of Some v \<Rightarrow> v | None \<Rightarrow> JUndefined)"

text \<open>
  Modelled from the spec: \<open>set(key, value) -> success\<close> of the missing \<open>kv_store.tsx\<close>.
  The value under an existing key is replaced, a new key is added.
\<close>

definition kv_set :: "jsstring \<Rightarrow> jsval \<Rightarrow> kv \<Rightarrow> kv" where
  "kv_set k v s = AList.update k v s"


section \<open>Requests, responses and authentication\<close>

text \<open>
  The body of a request is the value \<open>c.req.json()\<close> returns: any JSON value, an object
  or not. Destructuring it, or reading a member of it, throws a TypeError when it is
  \<open>null\<close>; a spread of it does not. (A request whose text is no JSON at all has no
  body: \<open>c.req.json()\<close> throws and the handler answers 500 from its catch block before
  it reaches the store.)

  What differs from one request to the next without being part of the request: the
  clock (\<open>Date.now()\<close> and \<open>new Date().toISOString()\<close>, read once a request), the
  text \<open>Math.random().toString(36).substr(2, 9)\<close>, the configured \<open>GEMINI_API_KEY\<close>.
\<close>

record env =
  date_now :: nat
  date_iso :: jsstring
  random_id :: jsstring
  api_key :: "jsstring option"

datatype response = Response (status_of: nat) (body_of: jsval)

definition error_response :: "nat \<Rightarrow> string \<Rightarrow> response" where
  "error_response code msg = Response code (obj [(''error'', JStr (js msg))])"

text \<open>
  The catch block every handler ends with:
  \<^verbatim>\<open>return c.json({ error: `Server error ...: ${error?.message || 'Unknown error'}` }, 500)\<close>
\<close>

definition server_error :: "platform \<Rightarrow> string \<Rightarrow> js_error \<Rightarrow> response" where
  "server_error P what e =
     Response 500 (obj [(''error'', JStr (js what @
        (if message_of P e \<noteq> [] then message_of P e else js ''Unknown error'')))])"

text \<open>\<^verbatim>\<open>c.req.header('Authorization')?.split(' ')[1]\<close>\<close>

definition access_token :: "jsstring option \<Rightarrow> jsstring option" where
  "access_token header =
     (case header of
        None \<Rightarrow> None
      | Some h \<Rightarrow> (case split_on 32 h of a # t # rest \<Rightarrow> Some t | other \<Rightarrow> None))"

text \<open>
  The opening of every protected handler:
  \<^verbatim>\<open>if (!accessToken) return c.json({ error: "No authorization token provided" }, 401);
  const userId = verifyToken(accessToken);
  if (!userId) return c.json({ error: "Unauthorized - invalid or expired token" }, 401);\<close>
\<close>

definition authenticate :: "jsstring option \<Rightarrow> response + jsstring" where
  "authenticate header =
     (case access_token header of
        None \<Rightarrow> Inl (error_response 401 ''No authorization token provided'')
      | Some t \<Rightarrow>
          if t = [] then Inl (error_response 401 ''No authorization token provided'')
          else (case verifyToken t of
                  None \<Rightarrow> Inl (error_response 401 ''Unauthorized - invalid or expired token'')
                | Some userId \<Rightarrow>
                    if userId = []
                    then Inl (error_response 401 ''Unauthorized - invalid or expired token'')
                    else Inr userId))"

definition user_key :: "jsstring \<Rightarrow> jsstring" where
  "user_key userId = js ''user:'' @ userId"

definition missions_key :: "jsstring \<Rightarrow> jsstring" where
  "missions_key userId = js ''missions:'' @ userId"

definition transactions_key :: "jsstring \<Rightarrow> jsstring" where
  "transactions_key userId = js ''transactions:'' @ userId"

definition financial_key :: "jsstring \<Rightarrow> jsstring" where
  "financial_key userId = js ''financial:'' @ userId"

definition post_key :: "jsstring \<Rightarrow> jsstring" where
  "post_key postId = js ''post:'' @ postId"

section \<open>Transactions\<close>

text \<open>\<open>POST /transactions\<close>.\<close>

definition transaction_types :: "jsval list" where
  "transaction_types =
     [JStr (js ''income''), JStr (js ''expense''), JStr (js ''saving''), JStr (js ''investment'')]"

text \<open>\<open>Array.prototype.includes\<close>\<close>

definition array_includes :: "jsval list \<Rightarrow> jsval \<Rightarrow> bool" where
  "array_includes xs v = list_ex (\<lambda>x. same_value_zero x v) xs"

text \<open>\<^verbatim>\<open>!transaction.amount || typeof transaction.amount !== 'number' || transaction.amount <= 0\<close>\<close>

fun invalid_amount :: "jsval \<Rightarrow> bool" where
  "invalid_amount (JNum r) = (r = 0 \<or> r \<le> 0)"
| "invalid_amount v = True"

text \<open>
  \<open>Number(transaction.amount)\<close> is only reached with an amount that passed the check,
  where it is the number itself.
\<close>

fun the_number :: "jsval \<Rightarrow> real" where
  "the_number (JNum r) = r"
| "the_number v = 0"

text \<open>
  \<^verbatim>\<open>let newSavings = currentSavings; let newNetWorth = currentNetWorth;
  if (type === 'saving') { newSavings += amount; newNetWorth += amount; }
  else if (type === 'investment') { newNetWorth += amount; }
  else if (type === 'income') { newNetWorth += amount; }
  else if (type === 'expense') { newNetWorth -= amount; }\<close>
  The sums and the difference are those of doubles.
\<close>

definition new_totals ::
  "platform \<Rightarrow> jsval \<Rightarrow> jsnum \<Rightarrow> jsnum \<Rightarrow> jsnum \<Rightarrow> jsnum \<times> jsnum" where
  "new_totals P ttype amount currentSavings currentNetWorth =
     (if ttype = JStr (js ''saving'')
      then (num_add P currentSavings amount, num_add P currentNetWorth amount)
      else if ttype = JStr (js ''investment'')
      then (currentSavings, num_add P currentNetWorth amount)
      else if ttype = JStr (js ''income'')
      then (currentSavings, num_add P currentNetWorth amount)
      else if ttype = JStr (js ''expense'')
      then (currentSavings, num_sub P currentNetWorth amount)
      else (currentSavings, currentNetWorth))"

text \<open>
  The handler. \<open>transaction.type\<close> throws when the body is \<open>null\<close>, and the catch
  block answers 500. \<open>Math.max(0, newSavings)\<close> and \<open>Math.max(0, newNetWorth)\<close> go
  to the store and to the response as JSON.
\<close>

definition post_transactions ::
  "platform \<Rightarrow> env \<Rightarrow> jsstring option \<Rightarrow> jsval \<Rightarrow> kv \<Rightarrow> response \<times> kv" where
  "post_transactions P E header transaction s =
     (case authenticate header of
        Inl r \<Rightarrow> (r, s)
      | Inr userId \<Rightarrow>
          if nullish transaction
          then (server_error P ''Server error adding transaction: '' TypeError, s)
          else
          let ttype = get_prop transaction (js ''type'');
              tamount = get_prop transaction (js ''amount'')
          in if \<not> truthy ttype \<or> \<not> array_includes transaction_types ttype
             then (error_response 400
                     ''Invalid transaction type. Must be: income, expense, saving, or investment'', s)
             else if invalid_amount tamount
             then (error_response 400 ''Invalid amount. Must be a positive number'', s)
             else
               let existingTransactions = js_or (kv_get s (transactions_key userId)) (JArr []);
                   transactions = (case existingTransactions of JArr ts \<Rightarrow> ts | other \<Rightarrow> []);
                   newTransaction = obj
                     [(''type'', ttype),
                      (''amount'', tamount),
                      (''description'',
                         js_or (get_prop transaction (js ''description'')) (JStr [])),
                      (''category'',
                         js_or (get_prop transaction (js ''category'')) (JStr [])),
                      (''id'', JStr (js ''txn_'' @ digits (date_now E) @ js ''_'' @ random_id E)),
                      (''date'', JStr (date_iso E))];
                   s1 = kv_set (transactions_key userId) (JArr (transactions @ [newTransaction])) s;
                   userData = js_or (kv_get s1 (user_key userId)) (JObj Map.empty);
                   currentSavings = number_or_zero P (get_prop userData (js ''currentSavings''));
                   currentNetWorth = number_or_zero P (get_prop userData (js ''currentNetWorth''));
                   amount = Finite (the_number tamount);
                   newSavings = fst (new_totals P ttype amount currentSavings currentNetWorth);
                   newNetWorth = snd (new_totals P ttype amount currentSavings currentNetWorth);
                   s2 = kv_set (user_key userId)
                          (JObj ((own_props userData)
                             (js ''currentSavings'' \<mapsto> json_num (math_max 0 newSavings),
                              js ''currentNetWorth'' \<mapsto> json_num (math_max 0 newNetWorth)))) s1
               in (Response 200 (obj
                     [(''success'', JBool True),
                      (''transaction'', newTransaction),
                      (''newSavings'', json_num (math_max 0 newSavings)),
                      (''newNetWorth'', json_num (math_max 0 newNetWorth))]), s2))"

text \<open>
  The claims about this handler speak of a body that passes validation: a type among the
  four and an amount \<open>A > 0\<close>. This is that condition in the spec's words, to be compared
  with the two checks of the code.
\<close>

definition passes_validation :: "jsval \<Rightarrow> jsstring \<Rightarrow> real \<Rightarrow> bool" where
  "passes_validation transaction t A =
     (get_prop transaction (js ''type'') = JStr t \<and>
      t \<in> set [js ''income'', js ''expense'', js ''saving'', js ''investment''] \<and>
      get_prop transaction (js ''amount'') = JNum A \<and> 0 < A)"

text \<open>
  A member of the stored profile of a user, its reading \<open>Number(x) || 0\<close>, and the
  stored list of transactions.
\<close>

definition stored_field :: "kv \<Rightarrow> jsstring \<Rightarrow> string \<Rightarrow> jsval" where
  "stored_field s userId field = get_prop (kv_get s (user_key userId)) (js field)"

definition stored_number :: "platform \<Rightarrow> kv \<Rightarrow> jsstring \<Rightarrow> string \<Rightarrow> jsnum" where
  "stored_number P s userId field = number_or_zero P (stored_field s userId field)"

section \<open>Signup and profile update\<close>




section \<open>Missions, financial data and posts\<close>


text \<open>
  \<^verbatim>\<open>const missionIndex = updatedMissions.findIndex((m) => m.id === missionId);\<close>
  The callback throws on an element that is \<open>null\<close>.
\<close>

fun find_mission :: "jsval \<Rightarrow> jsval list \<Rightarrow> js_error + nat option" where
  "find_mission missionId [] = Inr None"
| "find_mission missionId (m # ms) =
     (if nullish m then Inl TypeError
      else if strict_eq (get_prop m (js ''id'')) missionId then Inr (Some 0)
      else (case find_mission missionId ms of
              Inl e \<Rightarrow> Inl e
            | Inr None \<Rightarrow> Inr None
            | Inr (Some i) \<Rightarrow> Inr (Some (Suc i))))"

text \<open>
  \<^verbatim>\<open>if (missionIndex >= 0) { updatedMissions[missionIndex].completed = true; }
  else { updatedMissions.push({ id: missionId, completed: true, completedAt: ... }); }\<close>
  A value without \<open>findIndex\<close> throws; so does, in the strict mode of a module, the
  assignment to a property of a string, number or boolean. On an element that is itself an
  array the assignment adds a property that is no element, and the list reads as before.
\<close>

definition mark_completed :: "env \<Rightarrow> jsval \<Rightarrow> jsval \<Rightarrow> js_error + jsval list" where
  "mark_completed E missionId updatedMissions =
     (case updatedMissions of
        JArr ms \<Rightarrow>
          (case find_mission missionId ms of
             Inl e \<Rightarrow> Inl e
           | Inr (Some i) \<Rightarrow>
               (case ms ! i of
                  JObj m \<Rightarrow> Inr (ms[i := JObj (m(js ''completed'' \<mapsto> JBool True))])
                | JArr xs \<Rightarrow> Inr ms
                | other \<Rightarrow> Inl TypeError)
           | Inr None \<Rightarrow>
               Inr (ms @ [obj [(''id'', missionId),
                               (''completed'', JBool True),
                               (''completedAt'', JStr (date_iso E))]]))
      | other \<Rightarrow> Inl TypeError)"

text \<open>
  \<open>POST /missions/complete\<close>. The two sums,
  \<^verbatim>\<open>completedToday: (missionsData.completedToday || 0) + 1\<close> and
  \<^verbatim>\<open>xpLevel: currentXP + xpEarned\<close>, go to the store and to the response as JSON.
\<close>

definition complete_mission ::
  "platform \<Rightarrow> env \<Rightarrow> jsstring option \<Rightarrow> jsval \<Rightarrow> kv \<Rightarrow> response \<times> kv" where
  "complete_mission P E header body s =
     (case authenticate header of
        Inl r \<Rightarrow> (r, s)
      | Inr userId \<Rightarrow>
          if nullish body
          then (server_error P ''Server error completing mission: '' TypeError, s)
          else
          let missionId = get_prop body (js ''missionId'');
              xpEarned = get_prop body (js ''xpEarned'');
              missionsData = js_or (kv_get s (missions_key userId))
                (obj [(''missions'', JArr []),
                      (''completedToday'', JNum 0),
                      (''lastReset'', JStr (date_iso E))]);
              updatedMissions = js_or (get_prop missionsData (js ''missions'')) (JArr [])
          in (case mark_completed E missionId updatedMissions of
                Inl e \<Rightarrow> (server_error P ''Server error completing mission: '' e, s)
              | Inr ms \<Rightarrow>
                  let updatedMissionsData = JObj ((own_props missionsData)
                        (js ''missions'' \<mapsto> JArr ms,
                         js ''completedToday'' \<mapsto>
                           json_sum (js_plus P
                             (js_or (get_prop missionsData (js ''completedToday'')) (JNum 0))
                             (JNum 1))));
                      s1 = kv_set (missions_key userId) updatedMissionsData s;
                      userData = js_or (kv_get s1 (user_key userId)) (JObj Map.empty);
                      currentXP = js_or (get_prop userData (js ''xpLevel'')) (JNum 0);
                      updatedUserData = JObj ((own_props userData)
                        (js ''xpLevel'' \<mapsto> json_sum (js_plus P currentXP xpEarned),
                         js ''lastMissionDate'' \<mapsto> JStr (date_iso E)));
                      s2 = kv_set (user_key userId) updatedUserData s1
                  in (Response 200 (obj
                        [(''success'', JBool True),
                         (''message'', JStr (js ''Mission completed successfully'')),
                         (''xpEarned'', xpEarned),
                         (''newXP'', json_sum (js_plus P currentXP xpEarned))]), s2)))"


text \<open>
  The white space and line terminators that \<open>String.prototype.trim\<close> removes.
\<close>

definition js_whitespace :: "nat \<Rightarrow> bool" where
  "js_whitespace c =
     (c \<in> set [9, 10, 11, 12, 13, 32, 160, 5760, 8232, 8233, 8239, 8287, 12288, 65279]
      \<or> (8192 \<le> c \<and> c \<le> 8202))"

definition js_trim :: "jsstring \<Rightarrow> jsstring" where
  "js_trim t = rev (dropWhile js_whitespace (rev (dropWhile js_whitespace t)))"


section \<open>Leaderboard and friends\<close>





text \<open>\<^verbatim>\<open>(a, b) => (b.xpLevel || 0) - (a.xpLevel || 0)\<close>\<close>

definition xp_of :: "jsval \<Rightarrow> jsval" where
  "xp_of user = js_or (get_prop user (js ''xpLevel'')) (JNum 0)"


















definition friend_added :: "platform \<Rightarrow> jsval \<Rightarrow> jsval \<Rightarrow> response" where
  "friend_added P friendData friendEmail =
     Response 200 (obj
       [(''success'', JBool True),
        (''message'', JStr (js ''Friend added successfully'')),
        (''friend'', obj
           [(''name'', get_prop friendData (js ''name'')),
            (''email'', friendEmail),
            (''xp'', xp_of friendData),
            (''level'', level_of P (xp_of friendData))])])"




section \<open>Mission content generator\<close>

text \<open>
  The external generative-text service is a collaborator: \<open>fetch\<close> either rejects or
  yields a response with its \<open>ok\<close> flag and the outcome of \<open>response.json()\<close>
  (\<open>None\<close> when that throws). The prompt only travels to the collaborator, whose answer
  is arbitrary, so its text is not part of the model.
\<close>

datatype fetch_outcome = FetchThrows js_error | FetchResponse bool "jsval option"

definition key_configured :: "env \<Rightarrow> bool" where
  "key_configured E = (case api_key E of Some k \<Rightarrow> k \<noteq> [] | None \<Rightarrow> False)"

text \<open>
  \<open>callGeminiAPI\<close>: every failure is rethrown to the caller.
  \<^verbatim>\<open>if (!GEMINI_API_KEY) throw ...
  const response = await fetch(...); const data = await response.json();
  if (!response.ok) throw new Error(data.error?.message || ...);
  if (!data.candidates || !data.candidates[0] || !data.candidates[0].content) throw ...
  return data.candidates[0].content.parts[0].text;\<close>
\<close>

definition callGeminiAPI :: "env \<Rightarrow> fetch_outcome \<Rightarrow> js_error + jsval" where
  "callGeminiAPI E outcome =
     (if \<not> key_configured E then Inl Error
      else (case outcome of
              FetchThrows e \<Rightarrow> Inl e
            | FetchResponse ok None \<Rightarrow> Inl SyntaxError
            | FetchResponse ok (Some data) \<Rightarrow>
                if nullish data then Inl TypeError
                else if \<not> ok then Inl Error
                else
                  let candidates = get_prop data (js ''candidates'')
                  in if \<not> truthy candidates \<or> \<not> truthy (get_index candidates 0)
                        \<or> \<not> truthy (get_prop (get_index candidates 0) (js ''content''))
                     then Inl Error
                     else
                       let parts = get_prop (get_prop (get_index candidates 0) (js ''content''))
                                     (js ''parts'')
                       in if nullish parts then Inl TypeError
                          else if nullish (get_index parts 0) then Inl TypeError
                          else Inr (get_prop (get_index parts 0) (js ''text''))))"

text \<open>\<^verbatim>\<open>Math.max(200, Math.floor(monthlyIncome * 0.05))\<close>\<close>

definition buffer_amount :: "platform \<Rightarrow> jsval \<Rightarrow> jsnum" where
  "buffer_amount P monthlyIncome =
     math_max 200 (math_floor (num_mul P (to_number P monthlyIncome) (fl P (5 / 100))))"

text \<open>\<open>userData?.interests?.[0] || 'wealth freedom'\<close>, for a \<open>userData\<close> that is truthy.\<close>

definition primary_goal :: "jsval \<Rightarrow> jsval" where
  "primary_goal userData =
     (let interests = get_prop userData (js ''interests'')
      in js_or (if nullish interests then JUndefined else get_index interests 0)
           (JStr (js ''wealth freedom'')))"

text \<open>
  One mission of the source's literals. The icons and the currency sign are written in
  the source file as the characters of a mis-decoded UTF-8 text; they are kept as they
  are, by their code units.
\<close>

definition mission ::
  "jsstring \<Rightarrow> string \<Rightarrow> jsstring \<Rightarrow> nat list \<Rightarrow> real \<Rightarrow> string \<Rightarrow> string \<Rightarrow> string \<Rightarrow> string
     \<Rightarrow> string \<Rightarrow> string list \<Rightarrow> jsval" where
  "mission mid title description icon xp category timeEstimate priority classification
     whyItMatters tips =
     obj [(''id'', JStr mid),
          (''title'', JStr (js title)),
          (''description'', JStr description),
          (''icon'', JStr icon),
          (''xp'', JNum xp),
          (''category'', JStr (js category)),
          (''timeEstimate'', JStr (js timeEstimate)),
          (''priority'', JStr (js priority)),
          (''classification'', JStr (js classification)),
          (''whyItMatters'', JStr (js whyItMatters)),
          (''tips'', JArr (map (\<lambda>t. JStr (js t)) tips))]"

definition mission_id :: "env \<Rightarrow> nat \<Rightarrow> jsstring" where
  "mission_id E n = js ''mission_'' @ digits n @ js ''_'' @ digits (date_now E)"

definition getDefaultMissions :: "platform \<Rightarrow> env \<Rightarrow> jsval \<Rightarrow> jsval list" where
  "getDefaultMissions P E userData =
     (let monthlyIncome = js_or (get_prop userData (js ''monthlyIncome'')) (JNum 50000);
          goal = primary_goal userData
      in [mission (mission_id E 1) ''Execute savings protocol''
            (js ''Allocate '' @ [226, 8218, 185] @ num_text P (buffer_amount P monthlyIncome)
               @ js '' to emergency buffer'')
            [240, 376, 8217, 176] 20 ''SAVE'' ''2_MIN'' ''HIGH'' ''ALPHA''
            ''Emergency fund protocols create financial stability barriers against unexpected system failures. Critical for wealth preservation.''
            [''Implement automatic transfer protocols'', ''Round-up transaction algorithms'',
             ''Deploy micro-savings accumulation systems''],
          mission (mission_id E 2) ''Knowledge acquisition module''
            (if strict_eq goal (JStr (js ''business'')) then js ''Research 2 startup ideas''
             else js ''Complete investment strategy learning protocol'')
            [240, 376, 8220, 732] 15 ''LEARN'' ''5_MIN'' ''HIGH'' ''BETA''
            ''Financial intelligence upgrades optimize decision-making algorithms and prevent costly system errors.''
            [''Active note-taking during data acquisition'',
             ''Apply learned algorithms to portfolio systems'',
             ''Share intelligence with network nodes''],
          mission (mission_id E 3) ''Revenue stream expansion''
            (if strict_eq goal (JStr (js ''business'')) then js ''Create business plan outline''
             else js ''Submit 2 freelance proposals'')
            [240, 376, 8217, 188] 30 ''EARN'' ''30_MIN'' ''HIGH'' ''ALPHA''
            ''Multiple revenue streams accelerate wealth accumulation velocity and provide system redundancy.''
            [''Customize each proposal for target client systems'',
             ''Highlight relevant skill matrices'', ''Deploy competitive pricing algorithms''],
          mission (mission_id E 4) ''Network expansion protocol''
            (js ''Establish 2 professional node connections'')
            [240, 376, 164] 25 ''NETWORK'' ''15_MIN'' ''MEDIUM'' ''GAMMA''
            ''Network node expansion increases opportunity discovery rates and collaborative wealth generation potential.''
            [''Deploy personalized connection requests'', ''Reference mutual network nodes'',
             ''Share valuable data insights''],
          mission (mission_id E 5) ''Investment analysis protocol''
            (js ''Research 3 investment opportunity matrices'')
            [240, 376, 8220, 352] 25 ''LEARN'' ''20_MIN'' ''HIGH'' ''BETA''
            ''Investment analysis protocols optimize return algorithms and minimize risk exposure vectors.''
            [''Analyze expense ratio metrics'', ''Review fund management intelligence'',
             ''Compare benchmark performance data'']])"

text \<open>
  \<open>text.replace(/pat\n?/g, '')\<close> for a literal \<open>pat\<close>: every occurrence is removed,
  with the line feed that follows it when there is one.
\<close>

function remove_all :: "jsstring \<Rightarrow> jsstring \<Rightarrow> jsstring" where
  "remove_all pat [] = []"
| "remove_all pat (x # xs) =
     (if pat \<noteq> [] \<and> take (length pat) (x # xs) = pat
      then remove_all pat
             (if drop (length pat) (x # xs) \<noteq> [] \<and> hd (drop (length pat) (x # xs)) = 10
              then tl (drop (length pat) (x # xs))
              else drop (length pat) (x # xs))
      else x # remove_all pat xs)"
  by pat_completeness auto
termination
proof (relation "measure (\<lambda>(pat, t). length t)")
  show "wf (measure (\<lambda>(pat, t). length t))" by simp
next
  fix pat :: jsstring and x :: nat and xs :: jsstring
  assume a: "pat \<noteq> [] \<and> take (length pat) (x # xs) = pat"
  let ?r = "drop (length pat) (x # xs)"
  let ?n = "if ?r \<noteq> [] \<and> hd ?r = 10 then tl ?r else ?r"
  have shorter: "length (if r \<noteq> [] \<and> hd r = 10 then tl r else r) \<le> length r"
    for r :: "nat list"
    by (cases r) simp_all
  have "length ?n \<le> length ?r" by (rule shorter)
  moreover have "length ?r < length (x # xs)"
    using a by (cases pat) simp_all
  ultimately have "length ?n < length (x # xs)" by (rule le_less_trans)
  then show "((pat, ?n), pat, x # xs) \<in> measure (\<lambda>(pat, t). length t)"
    unfolding in_measure split_conv .
next
  fix pat :: jsstring and x :: nat and xs :: jsstring
  show "((pat, xs), pat, x # xs) \<in> measure (\<lambda>(pat, t). length t)" by simp
qed

declare remove_all.simps [simp del]

text \<open>
  \<open>cleaned.match(/\[[\s\S]*\]/)\<close>: from the first \<open>[\<close> to the last \<open>]\<close> after it.
\<close>

definition json_array_match :: "jsstring \<Rightarrow> jsstring option" where
  "json_array_match t =
     (case dropWhile (\<lambda>c. c \<noteq> 91) t of
        [] \<Rightarrow> None
      | bracket # rest \<Rightarrow>
          (case rev (dropWhile (\<lambda>c. c \<noteq> 93) (rev rest)) of
             [] \<Rightarrow> None
           | inner \<Rightarrow> Some (bracket # inner)))"

text \<open>
  The backfill of one element of the parsed array; \<open>m.id\<close> throws when the element is
  \<open>null\<close>.
\<close>

definition backfill :: "env \<Rightarrow> nat \<Rightarrow> jsval \<Rightarrow> js_error + jsval" where
  "backfill E index m =
     (if nullish m then Inl TypeError
      else Inr (obj
        [(''id'', js_or (get_prop m (js ''id'')) (JStr (mission_id E (index + 1)))),
         (''title'', js_or (get_prop m (js ''title'')) (JStr (js ''Mission''))),
         (''description'', js_or (get_prop m (js ''description'')) (JStr [])),
         (''icon'', js_or (get_prop m (js ''icon'')) (JStr [240, 376, 381, 175])),
         (''xp'', js_or (get_prop m (js ''xp'')) (JNum 20)),
         (''category'', js_or (get_prop m (js ''category'')) (JStr (js ''LEARN''))),
         (''timeEstimate'', js_or (get_prop m (js ''timeEstimate'')) (JStr (js ''10_MIN''))),
         (''priority'', js_or (get_prop m (js ''priority'')) (JStr (js ''MEDIUM''))),
         (''classification'', js_or (get_prop m (js ''classification'')) (JStr (js ''BETA''))),
         (''whyItMatters'', js_or (get_prop m (js ''whyItMatters''))
            (JStr (js ''This mission helps you progress towards your financial goals.''))),
         (''tips'', (case get_prop m (js ''tips'') of
                       JArr ts \<Rightarrow> JArr ts
                     | other \<Rightarrow> JArr [JStr (js ''Complete this mission to earn XP'')]))]))"

fun backfill_all :: "env \<Rightarrow> nat \<Rightarrow> jsval list \<Rightarrow> js_error + jsval list" where
  "backfill_all E index [] = Inr []"
| "backfill_all E index (m # ms) =
     (case backfill E index m of
        Inl e \<Rightarrow> Inl e
      | Inr x \<Rightarrow> (case backfill_all E (Suc index) ms of
                    Inl e \<Rightarrow> Inl e
                  | Inr xs \<Rightarrow> Inr (x # xs)))"

text \<open>
  \<^verbatim>\<open>aiResponse.replace(/```json\n?/g, '').replace(/```\n?/g, '').trim()\<close>
\<close>

definition clean_reply :: "jsstring \<Rightarrow> jsstring" where
  "clean_reply t = js_trim (remove_all [96, 96, 96] (remove_all ([96, 96, 96] @ js ''json'') t))"

text \<open>
  The inner \<open>try\<close> of the handler: \<open>Inl\<close> when it throws, \<open>Inr None\<close> when it ends
  without assigning \<open>missions\<close>, \<open>Inr (Some ms)\<close> when it assigns the backfilled list. A
  reply that is not a string has no \<open>replace\<close> to call.
\<close>

definition parse_ai_missions :: "platform \<Rightarrow> env \<Rightarrow> jsval \<Rightarrow> js_error + jsval list option" where
  "parse_ai_missions P E aiResponse =
     (case aiResponse of
        JStr t \<Rightarrow>
          let cleanedResponse = clean_reply t
          in (case json_array_match cleanedResponse of
                None \<Rightarrow> Inr None
              | Some jsonMatch \<Rightarrow>
                  (case json_parse P jsonMatch of
                     None \<Rightarrow> Inl SyntaxError
                   | Some (JArr (m # ms)) \<Rightarrow>
                       (case backfill_all E 0 (m # ms) of
                          Inl e \<Rightarrow> Inl e
                        | Inr missions \<Rightarrow> Inr (Some missions))
                   | Some other \<Rightarrow> Inr None))
      | other \<Rightarrow> Inl TypeError)"

text \<open>
  The choice between the deterministic list and the reply of the collaborator; both
  catch blocks and the final check for an empty list fall back to the defaults.
\<close>

definition choose_missions :: "platform \<Rightarrow> env \<Rightarrow> fetch_outcome \<Rightarrow> jsval \<Rightarrow> jsval list" where
  "choose_missions P E outcome userData =
     (let missions =
            (if key_configured E
             then (case callGeminiAPI E outcome of
                     Inl e \<Rightarrow> getDefaultMissions P E userData
                   | Inr aiResponse \<Rightarrow>
                       (case parse_ai_missions P E aiResponse of
                          Inl e \<Rightarrow> getDefaultMissions P E userData
                        | Inr None \<Rightarrow> getDefaultMissions P E userData
                        | Inr (Some ms) \<Rightarrow> ms))
             else getDefaultMissions P E userData)
      in if missions = [] then getDefaultMissions P E userData else missions)"

definition not_completed :: "jsval \<Rightarrow> jsval" where
  "not_completed m = JObj ((own_props m)(js ''completed'' \<mapsto> JBool False))"

definition missions_record :: "env \<Rightarrow> jsval list \<Rightarrow> jsval" where
  "missions_record E ms =
     obj [(''missions'', JArr ms), (''completedToday'', JNum 0), (''lastReset'', JStr (date_iso E))]"

text \<open>
  The two missions of the outer catch block, which runs when the store throws. Here the
  response carries the list as built, and the store the list with \<open>completed: false\<close>.
\<close>

definition fallback_missions :: "env \<Rightarrow> jsval list" where
  "fallback_missions E =
     [mission (mission_id E 1) ''Execute savings protocol''
        (js ''Allocate '' @ [226, 8218, 185] @ js ''200 to emergency buffer'')
        [240, 376, 8217, 176] 20 ''SAVE'' ''2_MIN'' ''HIGH'' ''ALPHA''
        ''Emergency fund protocols create financial stability.''
        [''Implement automatic transfers''],
      mission (mission_id E 2) ''Knowledge acquisition''
        (js ''Complete financial literacy module'')
        [240, 376, 8220, 732] 15 ''LEARN'' ''5_MIN'' ''HIGH'' ''BETA''
        ''Financial intelligence optimizes decisions.''
        [''Take notes'', ''Apply learnings'']]"

text \<open>
  The storage faults of one request: the outcomes of its successive store operations,
  \<open>True\<close> for one that throws; an operation beyond the list succeeds.
\<close>

definition faulty :: "bool list \<Rightarrow> nat \<Rightarrow> bool" where
  "faulty faults n = (n < length faults \<and> faults ! n)"

definition generate_fallback ::
  "platform \<Rightarrow> env \<Rightarrow> bool list \<Rightarrow> nat \<Rightarrow> jsstring \<Rightarrow> kv \<Rightarrow> response \<times> kv" where
  "generate_fallback P E faults n userId s =
     (if faulty faults n \<or> faulty faults (Suc n)
      then (server_error P ''Server error generating missions: '' Error, s)
      else (Response 200 (obj
              [(''success'', JBool True), (''missions'', JArr (fallback_missions E))]),
            kv_set (missions_key userId)
              (missions_record E (map not_completed (fallback_missions E))) s))"

definition generate_missions ::
  "platform \<Rightarrow> env \<Rightarrow> fetch_outcome \<Rightarrow> bool list \<Rightarrow> jsstring option \<Rightarrow> kv \<Rightarrow> response \<times> kv"
  where
  "generate_missions P E outcome faults header s =
     (case authenticate header of
        Inl r \<Rightarrow> (r, s)
      | Inr userId \<Rightarrow>
          if faulty faults 0 then generate_fallback P E faults 1 userId s
          else
            let userData = js_or (kv_get s (user_key userId)) (JObj Map.empty);
                missions = choose_missions P E outcome userData;
                missionsToSave = map not_completed missions
            in if faulty faults 1 then generate_fallback P E faults 2 userId s
               else (Response 200 (obj
                       [(''success'', JBool True), (''missions'', JArr missionsToSave)]),
                     kv_set (missions_key userId) (missions_record E missionsToSave) s))"



definition missions_of :: "response \<Rightarrow> jsval list" where
  "missions_of r = (case get_prop (body_of r) (js ''missions'') of JArr ms \<Rightarrow> ms | other \<Rightarrow> [])"

section \<open>Sequences of requests\<close>

text \<open>
  The routes that write to the store, each with what the client sends. The other
  routes (\<open>/login\<close>, \<open>/health\<close> and every \<open>GET\<close>) never call \<open>kv.set\<close>.
\<close>

datatype request =
    Signup jsval
  | UpdateProfile "jsstring option" jsval
  | SaveMissions "jsstring option" jsval
  | CompleteMission "jsstring option" jsval
  | SaveFinancialData "jsstring option" jsval
  | CreatePost "jsstring option" jsval
  | GenerateMissions fetch_outcome "bool list" "jsstring option"
  | AddFriend "jsstring option" jsval
  | AddTransaction "jsstring option" jsval





text \<open>
  The XP of a user as the handlers read it, \<open>userData.xpLevel || 0\<close>, when that is a
  number.
\<close>

definition xp_level :: "kv \<Rightarrow> jsstring \<Rightarrow> real option" where
  "xp_level s userId =
     (case xp_of (kv_get s (user_key userId)) of JNum r \<Rightarrow> Some r | other \<Rightarrow> None)"


text \<open>
  The sum \<open>currentXP + xpEarned\<close> that a request to complete a mission makes for a user
  over a store is finite: it is stored as a number, not as \<open>null\<close>. \<open>sums_finite\<close>
  says so of every request of a sequence, each over the store it is served from.
\<close>

fun sum_finite :: "platform \<Rightarrow> jsstring \<Rightarrow> request \<Rightarrow> kv \<Rightarrow> bool" where
  "sum_finite P userId (CompleteMission h b) s =
     (authenticate h \<noteq> Inr userId
      \<or> json_sum (js_plus P (xp_of (kv_get s (user_key userId))) (get_prop b (js ''xpEarned'')))
          \<noteq> JNull)"
| "sum_finite P userId r s = True"


section \<open>Concrete inputs for the examples\<close>

text \<open>
  A platform and an environment to evaluate the handlers at. Its rounding is to the
  nearest integer, with the infinities from \<open>2 ^ 1024\<close> on: on the integers up to
  \<open>2 ^ 53\<close> and on a sum that reaches \<open>2 ^ 1024\<close>, which is all the examples
  compute, this is the rounding of doubles. The parser knows two texts:
  \<open>JSON.parse('[{}]')\<close> is the array of one empty object, \<open>JSON.parse('[null]')\<close> the
  array of one \<open>null\<close>.
\<close>

definition double_limit :: int where
  "double_limit = 2 ^ 1024"

definition nearest_integer :: "real \<Rightarrow> jsnum" where
  "nearest_integer x =
     (if double_limit \<le> \<lfloor>x + 1 / 2\<rfloor> then PlusInfinity
      else if \<lfloor>x + 1 / 2\<rfloor> \<le> - double_limit then MinusInfinity
      else Finite (of_int \<lfloor>x + 1 / 2\<rfloor>))"

definition example_platform :: platform where
  "example_platform =
     \<lparr>str_of = (\<lambda>v. []), num_of = (\<lambda>v. NaN), fl = nearest_integer,
      json_parse = (\<lambda>t. if t = js ''[{}]'' then Some (JArr [JObj Map.empty])
                         else if t = js ''[null]'' then Some (JArr [JNull]) else None),
      digest = (\<lambda>t. []), message_of = (\<lambda>e. [])\<rparr>"

definition example_env :: env where
  "example_env =
     \<lparr>date_now = 1700000000000, date_iso = js ''2023-11-14T22:13:20.000Z'',
      random_id = js ''k3j9x0a1b'', api_key = None\<rparr>"

text \<open>The header \<open>Bearer YTox\<close>; the token decodes to \<open>a:1\<close>, the identity is \<open>a\<close>.\<close>

definition example_header :: "jsstring option" where
  "example_header = Some (js ''Bearer YTox'')"


text \<open>A store with one profile, two requests to add a transaction, and a profile overdrawn.\<close>

definition example_profile :: jsobject where
  "example_profile =
     [js ''email'' \<mapsto> JStr (js ''a''), js ''name'' \<mapsto> JStr (js ''Ann''),
      js ''currentSavings'' \<mapsto> JNum 100, js ''currentNetWorth'' \<mapsto> JNum 5000]"

definition example_store :: kv where
  "example_store = [(user_key (js ''a''), JObj example_profile)]"



definition income_text :: jsval where
  "income_text =
     JObj [js ''type'' \<mapsto> JStr (js ''income''), js ''amount'' \<mapsto> JStr (js ''1000'')]"











definition half_limit :: real where
  "half_limit = 2 ^ 1023"

definition huge_xp_store :: kv where
  "huge_xp_store =
     [(user_key (js ''a''), obj [(''email'', JStr (js ''a'')), (''xpLevel'', JNum half_limit)])]"

definition complete_huge :: jsval where
  "complete_huge =
     JObj [js ''missionId'' \<mapsto> JStr (js ''m1''), js ''xpEarned'' \<mapsto> JNum half_limit]"







section \<open>Base64 round trip\<close>

lemma b64_value_char: "n < 64 \<Longrightarrow> b64_value (b64_char n) = Some n"
  by (auto simp: b64_value_def b64_char_def)

lemma b64_char_not_pad: "n < 64 \<Longrightarrow> b64_char n \<noteq> 61"
  by (auto simp: b64_char_def)

lemma b64_char_not_ws: "n < 64 \<Longrightarrow> \<not> ascii_whitespace (b64_char n)"
  by (auto simp: b64_char_def ascii_whitespace_def)

lemma b64_groups_small: "list_all (\<lambda>c. c < 256) s \<Longrightarrow> list_all (\<lambda>v. v < 64) (b64_groups s)"
proof (induction s rule: b64_groups.induct)
  case (1 a b c r)
  then have "a < 256" "b < 256" "c < 256" by simp_all
  then have "a div 4 < 64" "(a mod 4) * 16 + b div 16 < 64"
    "(b mod 16) * 4 + c div 64 < 64" "c mod 64 < 64" by arith+
  with 1 show ?case by simp
next
  case (2 a b)
  then have "a < 256" "b < 256" by simp_all
  then have "a div 4 < 64" "(a mod 4) * 16 + b div 16 < 64" "(b mod 16) * 4 < 64" by arith+
  then show ?case by simp
next
  case (3 a)
  then have "a < 256" by simp
  then have "a div 4 < 64" "(a mod 4) * 16 < 64" by arith+
  then show ?case by simp
next
  case 4
  show ?case by simp
qed

lemma sextet_first: "a < 256 \<Longrightarrow> b < 256 \<Longrightarrow> a div 4 * 4 + ((a mod 4) * 16 + b div 16) div 16 = (a::nat)"
  by simp

lemma sextet_second:
  "a < 256 \<Longrightarrow> b < 256 \<Longrightarrow> c < 256 \<Longrightarrow>
   (((a mod 4) * 16 + b div 16) mod 16) * 16 + ((b mod 16) * 4 + c div 64) div 4 = (b::nat)"
  by simp

lemma sextet_third:
  "b < 256 \<Longrightarrow> c < 256 \<Longrightarrow> (((b mod 16) * 4 + c div 64) mod 4) * 64 + c mod 64 = (c::nat)"
  by simp

lemma sextet_second_short:
  "a < 256 \<Longrightarrow> b < 256 \<Longrightarrow> (((a mod 4) * 16 + b div 16) mod 16) * 16 + ((b mod 16) * 4) div 4 = (b::nat)"
  by simp

lemma sextet_first_short: "a < 256 \<Longrightarrow> a div 4 * 4 + ((a mod 4) * 16) div 16 = (a::nat)"
  by simp

lemma b64_bytes_groups: "list_all (\<lambda>c. c < 256) s \<Longrightarrow> b64_bytes (b64_groups s) = s"
proof (induction s rule: b64_groups.induct)
  case (1 a b c r)
  then have lt: "a < 256" "b < 256" "c < 256" and r: "b64_bytes (b64_groups r) = r"
    by simp_all
  show ?case
    using sextet_first [OF lt(1,2)] sextet_second [OF lt] sextet_third [OF lt(2,3)] r
    by (simp del: mult_Suc_right)
next
  case (2 a b)
  then have lt: "a < 256" "b < 256" by simp_all
  show ?case
    using sextet_first [OF lt] sextet_second_short [OF lt] by simp
next
  case (3 a)
  then have lt: "a < 256" by simp
  show ?case using sextet_first_short [OF lt] by simp
next
  case 4
  show ?case by simp
qed

lemma length_b64_groups: "(length (b64_groups s) + b64_pad s) mod 4 = 0"
  by (induction s rule: b64_groups.induct) simp_all

lemma length_b64_groups_mod: "length (b64_groups s) mod 4 \<noteq> 1"
  by (induction s rule: b64_groups.induct) simp_all

lemma b64_pad_le: "b64_pad s \<le> 2"
  by (induction s rule: b64_groups.induct) simp_all

lemma those_b64_value: "list_all (\<lambda>v. v < 64) vs \<Longrightarrow> those (map b64_value (map b64_char vs)) = Some vs"
  by (induction vs) (simp_all add: b64_value_char)

lemma filter_ws_b64:
  "list_all (\<lambda>v. v < 64) vs \<Longrightarrow>
   filter (\<lambda>c. \<not> ascii_whitespace c) (map b64_char vs @ replicate p 61) =
   map b64_char vs @ replicate p 61"
proof -
  have "\<not> ascii_whitespace 61" by (simp add: ascii_whitespace_def)
  moreover have "list_all (\<lambda>v. v < 64) vs \<Longrightarrow>
      filter (\<lambda>c. \<not> ascii_whitespace c) (map b64_char vs) = map b64_char vs"
    by (induction vs) (simp_all add: b64_char_not_ws)
  ultimately show "list_all (\<lambda>v. v < 64) vs \<Longrightarrow>
   filter (\<lambda>c. \<not> ascii_whitespace c) (map b64_char vs @ replicate p 61) =
   map b64_char vs @ replicate p 61"
    by simp
qed

lemma last_b64_not_pad:
  "list_all (\<lambda>v. v < 64) vs \<Longrightarrow> vs \<noteq> [] \<Longrightarrow> last (map b64_char vs) \<noteq> 61"
  by (induction vs) (auto simp: b64_char_not_pad)

lemma strip_padding_b64:
  assumes small: "list_all (\<lambda>v. v < 64) vs" and p: "p \<le> 2"
    and len: "(length vs + p) mod 4 = 0"
  shows "strip_padding (map b64_char vs @ replicate p 61) = map b64_char vs"
proof -
  consider "p = 0" | "p = 1" | "p = 2" using p by arith
  then show ?thesis
  proof cases
    case 1
    show ?thesis
    proof (cases "vs = []")
      case True
      with 1 show ?thesis by (simp add: strip_padding_def)
    next
      case False
      with 1 last_b64_not_pad [OF small] show ?thesis
        by (simp add: strip_padding_def)
    qed
  next
    case 2
    show ?thesis
    proof (cases "vs = []")
      case True
      with 2 len show ?thesis by simp
    next
      case False
      with 2 len last_b64_not_pad [OF small] show ?thesis
        by (simp add: strip_padding_def)
    qed
  next
    case 3
    have rep: "replicate p 61 = [61, 61::nat]"
      using 3 by (simp add: numeral_2_eq_2)
    show ?thesis
    proof (cases "vs = []")
      case True
      with 3 len show ?thesis by simp
    next
      case False
      with 3 len last_b64_not_pad [OF small] show ?thesis
        unfolding rep by (simp add: strip_padding_def butlast_append)
    qed
  qed
qed

lemma latin1_no_high:
  "list_all (\<lambda>c. c < 256) (s::nat list) \<Longrightarrow> \<not> list_ex (\<lambda>c. 255 < c) s"
  by (induction s) auto

lemma atob_btoa:
  assumes "list_all (\<lambda>c. c < 256) s"
  shows "atob (base64_text s) = Inr s"
proof -
  let ?vs = "b64_groups s"
  have small: "list_all (\<lambda>v. v < 64) ?vs"
    using assms by (rule b64_groups_small)
  have d: "strip_padding (filter (\<lambda>c. \<not> ascii_whitespace c)
             (map b64_char ?vs @ replicate (b64_pad s) 61)) = map b64_char ?vs"
    using small filter_ws_b64 [OF small, of "b64_pad s"]
    by (simp only: strip_padding_b64 [OF small b64_pad_le length_b64_groups])
  show ?thesis
    unfolding atob_def base64_text_def d Let_def
    using length_b64_groups_mod [of s] those_b64_value [OF small] b64_bytes_groups [OF assms]
    by simp
qed

lemma split_on_first: "\<exists>ps. split_on c s = takeWhile (\<lambda>x. x \<noteq> c) s # ps"
  by (induction s) auto

lemma digits_latin1: "list_all (\<lambda>c. c < 256) (digits n)"
proof (induction n rule: digits.induct)
  case (1 n)
  show ?case
  proof (cases "n < 10")
    case True
    then show ?thesis by (subst digits.simps) simp
  next
    case False
    have "n mod 10 < 10" by simp
    then have "48 + n mod 10 < 256" by arith
    with False 1 show ?thesis by (subst digits.simps) simp
  qed
qed

lemma verifyToken_decoded:
  "atob t = Inr d \<Longrightarrow> verifyToken t = Some (takeWhile (\<lambda>x. x \<noteq> 58) d)"
  using split_on_first [of 58 d] by (auto simp: verifyToken_def)

section \<open>The store and the keys\<close>

lemma kv_get_set: "kv_get (kv_set k v s) k' = (if k' = k then v else kv_get s k')"
  by (simp add: kv_get_def kv_set_def update_conv')

lemma keys_distinct:
  "transactions_key a \<noteq> user_key b" "missions_key a \<noteq> user_key b"
  "financial_key a \<noteq> user_key b" "post_key a \<noteq> user_key b"
  "user_key b \<noteq> transactions_key a" "user_key b \<noteq> missions_key a"
  "user_key b \<noteq> financial_key a" "user_key b \<noteq> post_key a"
  "user_key a = user_key b \<longleftrightarrow> a = b"
  by (simp_all add: transactions_key_def user_key_def missions_key_def financial_key_def
      post_key_def js_def)

lemma get_prop_or_empty: "get_prop (js_or v (JObj Map.empty)) k = get_prop v k"
  by (cases v) (simp_all add: js_or_def)

lemma example_authenticated: "authenticate example_header = Inr (js ''a'')"
  by (simp add: example_header_def authenticate_def access_token_def verifyToken_def atob_def
      js_def b64_value_def strip_padding_def ascii_whitespace_def)

section \<open>Claims about tokens\<close>

text \<open>
  C5, as amended. For every email whose code units are all at most U+00FF and that
  contains no \<open>:\<close>, and for every issuance time, token issuance succeeds and verifying
  the issued token returns exactly that email. Verification takes no clock, so the age of
  the token cannot matter.
\<close>

theorem C5_token_roundtrip:
  assumes "list_all (\<lambda>c. c \<le> 255) email" and "58 \<notin> set email"
  shows "\<exists>t. generateToken email now = Inr t \<and> verifyToken t = Some email"
proof -
  let ?plain = "email @ [58] @ digits now"
  let ?t = "base64_text ?plain"
  have e: "list_all (\<lambda>c. c < 256) email"
    using assms(1) by (induction email) auto
  have latin: "list_all (\<lambda>c. c < 256) ?plain"
    using e digits_latin1 [of now] by simp
  then have "\<not> list_ex (\<lambda>c. 255 < c) ?plain"
    by (rule latin1_no_high)
  then have gen: "generateToken email now = Inr ?t"
    by (simp add: generateToken_def btoa_def)
  have "takeWhile (\<lambda>x. x \<noteq> 58) ?plain = email"
    using assms(2) by (induction email) auto
  with verifyToken_decoded [OF atob_btoa [OF latin]] have "verifyToken ?t = Some email"
    by simp
  with gen show ?thesis by blast
qed

theorem C5_witness:
  "list_all (\<lambda>c. c \<le> 255) (js ''a@b.io'') \<and> 58 \<notin> set (js ''a@b.io'') \<and>
   (\<exists>t. generateToken (js ''a@b.io'') 1700000000000 = Inr t \<and> verifyToken t = Some (js ''a@b.io''))"
proof -
  have h1: "list_all (\<lambda>c. c \<le> 255) (js ''a@b.io'')" by (simp add: js_def)
  have h2: "58 \<notin> set (js ''a@b.io'')" by (simp add: js_def)
  from C5_token_roundtrip [OF h1 h2] h1 h2 show ?thesis by blast
qed

text \<open>
  C5 as stated fails: the one-character email U+03C0 contains no \<open>:\<close>, and token
  issuance throws for it, so there is no token to verify.
\<close>

theorem C5_counterexample:
  "58 \<notin> set [960::nat] \<and> generateToken [960] 1700000000000 = Inl InvalidCharacterError"
  by (simp add: generateToken_def btoa_def)

text \<open>
  C9, as amended. Verification returns null exactly when base64 decoding throws; when
  decoding succeeds with text \<open>d\<close> it returns \<open>d\<close> up to the first \<open>:\<close>, which
  is all of \<open>d\<close> when \<open>d\<close> has no \<open>:\<close>, whether or not a timestamp follows. So
  for every email \<open>E\<close> without \<open>:\<close> that \<open>btoa\<close> can encode, the encoding of the bare
  \<open>E\<close> verifies as \<open>E\<close>.
\<close>

theorem C9_verifyToken:
  "(verifyToken t = None \<longleftrightarrow> (\<exists>e. atob t = Inl e)) \<and>
   (atob t = Inr d \<longrightarrow> verifyToken t = Some (takeWhile (\<lambda>x. x \<noteq> 58) d)) \<and>
   (atob t = Inr d \<and> 58 \<notin> set d \<longrightarrow> verifyToken t = Some d) \<and>
   (list_all (\<lambda>c. c \<le> 255) E \<and> 58 \<notin> set E \<longrightarrow>
      (\<exists>t'. btoa E = Inr t' \<and> verifyToken t' = Some E))"
proof (intro conjI impI)
  show "verifyToken t = None \<longleftrightarrow> (\<exists>e. atob t = Inl e)"
  proof (cases "atob t")
    case (Inl e)
    then show ?thesis by (simp add: verifyToken_def)
  next
    case (Inr d')
    with verifyToken_decoded [OF Inr] show ?thesis by simp
  qed
next
  assume "atob t = Inr d"
  then show "verifyToken t = Some (takeWhile (\<lambda>x. x \<noteq> 58) d)"
    by (rule verifyToken_decoded)
next
  assume a: "atob t = Inr d \<and> 58 \<notin> set d"
  then have "takeWhile (\<lambda>x. x \<noteq> 58) d = d" by (induction d) auto
  with a verifyToken_decoded [of t d] show "verifyToken t = Some d" by simp
next
  assume a: "list_all (\<lambda>c. c \<le> 255) E \<and> 58 \<notin> set E"
  let ?t = "base64_text E"
  have latin: "list_all (\<lambda>c. c < 256) E"
    using a by (induction E) auto
  then have "\<not> list_ex (\<lambda>c. 255 < c) E"
    by (rule latin1_no_high)
  then have enc: "btoa E = Inr ?t" by (simp add: btoa_def)
  have "takeWhile (\<lambda>x. x \<noteq> 58) E = E" using a by (induction E) auto
  with verifyToken_decoded [OF atob_btoa [OF latin]] have "verifyToken ?t = Some E" by simp
  with enc show "\<exists>t'. btoa E = Inr t' \<and> verifyToken t' = Some E" by blast
qed

theorem C9_witness:
  "atob (js ''YQ=='') = Inr (js ''a'') \<and> 58 \<notin> set (js ''a'') \<and>
   list_all (\<lambda>c. c \<le> 255) (js ''a'') \<and>
   verifyToken (js ''YQ=='') = Some (js ''a'') \<and>
   (\<exists>t'. btoa (js ''a'') = Inr t' \<and> verifyToken t' = Some (js ''a''))"
proof -
  have h: "atob (js ''YQ=='') = Inr (js ''a'')"
    by (simp add: atob_def js_def b64_value_def strip_padding_def ascii_whitespace_def)
  have g: "58 \<notin> set (js ''a'')" "list_all (\<lambda>c. c \<le> 255) (js ''a'')"
    by (simp_all add: js_def)
  from C9_verifyToken [of "js ''YQ==''" "js ''a''" "js ''a''"] h g show ?thesis by blast
qed

text \<open>
  C9 as stated fails for an email that contains \<open>:\<close>: the encoding of the bare string
  \<open>a:b\<close> is \<open>YTpi\<close>, and it verifies as \<open>a\<close>, not as \<open>a:b\<close>.
\<close>

theorem C9_counterexample:
  "btoa (js ''a:b'') = Inr (js ''YTpi'') \<and> verifyToken (js ''YTpi'') = Some (js ''a'') \<and>
   js ''a'' \<noteq> js ''a:b''"
  by (simp add: btoa_def base64_text_def b64_char_def verifyToken_def atob_def js_def
      b64_value_def strip_padding_def ascii_whitespace_def)

section \<open>Claims about transactions\<close>

lemma type_check:
  "(truthy ty \<and> array_includes transaction_types ty) \<longleftrightarrow>
   (\<exists>t. ty = JStr t \<and> t \<in> set [js ''income'', js ''expense'', js ''saving'', js ''investment''])"
  by (cases ty) (auto simp: array_includes_def same_value_zero_def transaction_types_def js_def)

lemma amount_check: "\<not> invalid_amount v \<longleftrightarrow> (\<exists>A. v = JNum A \<and> 0 < A)"
  by (cases v) auto

lemma validation_iff:
  "(truthy (get_prop tr (js ''type'')) \<and>
    array_includes transaction_types (get_prop tr (js ''type'')) \<and>
    \<not> invalid_amount (get_prop tr (js ''amount''))) \<longleftrightarrow>
   (\<exists>t A. passes_validation tr t A)"
proof -
  have "(truthy (get_prop tr (js ''type'')) \<and>
    array_includes transaction_types (get_prop tr (js ''type''))) \<longleftrightarrow>
    (\<exists>t. get_prop tr (js ''type'') = JStr t \<and>
         t \<in> set [js ''income'', js ''expense'', js ''saving'', js ''investment''])"
    by (rule type_check)
  moreover have "\<not> invalid_amount (get_prop tr (js ''amount'')) \<longleftrightarrow>
    (\<exists>A. get_prop tr (js ''amount'') = JNum A \<and> 0 < A)"
    by (rule amount_check)
  ultimately show ?thesis
    unfolding passes_validation_def by blast
qed

lemma nullish_fails_validation: "nullish tr \<Longrightarrow> \<not> passes_validation tr t A"
  by (cases tr) (simp_all add: passes_validation_def)

lemma new_totals_valid:
  assumes "t \<in> set [js ''income'', js ''expense'', js ''saving'', js ''investment'']"
  shows "new_totals P (JStr t) a cs cn =
     (if t = js ''saving'' then num_add P cs a else cs,
      if t = js ''expense'' then num_sub P cn a else num_add P cn a)"
proof -
  consider "t = js ''income''" | "t = js ''expense''" | "t = js ''saving''" | "t = js ''investment''"
    using assms by auto
  then show ?thesis
  proof cases
    case 1 then show ?thesis by (simp add: new_totals_def js_def)
  next
    case 2 then show ?thesis by (simp add: new_totals_def js_def)
  next
    case 3 then show ?thesis by (simp add: new_totals_def js_def)
  next
    case 4 then show ?thesis by (simp add: new_totals_def js_def)
  qed
qed

lemma post_transactions_valid:
  assumes auth: "authenticate header = Inr userId"
    and valid: "passes_validation transaction t A"
  shows "\<exists>r s'. post_transactions P E header transaction s = (r, s') \<and> status_of r = 200 \<and>
     stored_field s' userId ''currentSavings'' =
       json_num (math_max 0
         (if t = js ''saving''
          then num_add P (stored_number P s userId ''currentSavings'') (Finite A)
          else stored_number P s userId ''currentSavings'')) \<and>
     stored_field s' userId ''currentNetWorth'' =
       json_num (math_max 0
         (if t = js ''expense''
          then num_sub P (stored_number P s userId ''currentNetWorth'') (Finite A)
          else num_add P (stored_number P s userId ''currentNetWorth'') (Finite A)))"
proof -
  have ty: "get_prop transaction (js ''type'') = JStr t"
    and am: "get_prop transaction (js ''amount'') = JNum A" and pos: "0 < A"
    and mem: "t \<in> set [js ''income'', js ''expense'', js ''saving'', js ''investment'']"
    using valid by (simp_all add: passes_validation_def)
  have nn: "\<not> nullish transaction"
    using valid nullish_fails_validation by blast
  have ok: "truthy (JStr t)" "array_includes transaction_types (JStr t)"
    using mem by (auto simp: array_includes_def same_value_zero_def transaction_types_def js_def)
  have amt: "\<not> invalid_amount (JNum A)" using pos by simp
  have names: "js ''currentSavings'' \<noteq> js ''currentNetWorth''"
    by (simp add: js_def)
  have lookups: "\<And>m v w. get_prop (JObj (m(js ''currentSavings'' \<mapsto> v, js ''currentNetWorth'' \<mapsto> w)))
       (js ''currentSavings'') = v"
     "\<And>m v w. get_prop (JObj (m(js ''currentSavings'' \<mapsto> v, js ''currentNetWorth'' \<mapsto> w)))
       (js ''currentNetWorth'') = w"
    using names by simp_all
  show ?thesis
    unfolding post_transactions_def Let_def stored_field_def stored_number_def
    by (simp add: auth nn ty am ok amt lookups kv_get_set keys_distinct get_prop_or_empty
        new_totals_valid [OF mem] del: invalid_amount.simps truthy.simps get_prop.simps)
qed










text \<open>
  Beside C3: the sums are those of doubles. A saving of \<open>2 ^ 1023\<close> on savings of
  \<open>2 ^ 1023\<close> is beyond the doubles, and the total is stored as \<open>null\<close>.
\<close>

lemma savings_overflow:
  assumes "authenticate header = Inr userId"
    and "passes_validation transaction (js ''saving'') A"
    and "stored_number P s userId ''currentSavings'' = Finite old"
    and "fl P (old + A) = PlusInfinity"
  shows "stored_field (snd (post_transactions P E header transaction s)) userId ''currentSavings''
     = JNull"
  using post_transactions_valid [OF assms(1,2), of P E s] assms(3,4) by auto

text \<open>
  C10, as amended. For every authenticated \<open>POST /transactions\<close> whose body does not
  pass validation, the store is exactly as before; the handler answers 400 when the body
  is not \<open>null\<close>, and 500 when the body is \<open>null\<close>, where reading
  \<open>transaction.type\<close> throws.
\<close>

theorem C10_invalid_transaction:
  assumes "authenticate header = Inr userId"
    and "\<not> (\<exists>t A. passes_validation transaction t A)"
  shows "\<exists>r. post_transactions P E header transaction s = (r, s) \<and>
     status_of r = (if nullish transaction then 500 else 400)"
proof -
  from assms(2) have "\<not> truthy (get_prop transaction (js ''type'')) \<or>
    \<not> array_includes transaction_types (get_prop transaction (js ''type'')) \<or>
    invalid_amount (get_prop transaction (js ''amount''))"
    using validation_iff [of transaction] by blast
  then show ?thesis
    unfolding post_transactions_def Let_def using assms(1)
    by (auto simp: error_response_def server_error_def)
qed

theorem C10_witness:
  "authenticate example_header = Inr (js ''a'') \<and>
   \<not> (\<exists>t A. passes_validation income_text t A) \<and> \<not> nullish income_text \<and>
   (\<exists>r. post_transactions example_platform example_env example_header income_text example_store
      = (r, example_store) \<and> status_of r = 400)"
proof -
  have inv: "\<not> (\<exists>t A. passes_validation income_text t A)"
    by (simp add: passes_validation_def income_text_def js_def)
  have nn: "\<not> nullish income_text"
    by (simp add: income_text_def)
  from C10_invalid_transaction [OF example_authenticated inv, of example_platform example_env
      example_store] example_authenticated inv nn
  show ?thesis by simp
qed

text \<open>
  C10 as stated fails at the body \<open>null\<close>: it fails validation, having neither a type
  nor an amount, and the handler answers 500, not 400. The store is as before.
\<close>

theorem C10_counterexample:
  "authenticate example_header = Inr (js ''a'') \<and>
   \<not> (\<exists>t A. passes_validation JNull t A) \<and>
   post_transactions example_platform example_env example_header JNull example_store =
     (server_error example_platform ''Server error adding transaction: '' TypeError, example_store) \<and>
   status_of (server_error example_platform ''Server error adding transaction: '' TypeError) = 500"
  by (simp add: example_authenticated passes_validation_def post_transactions_def
      server_error_def)

section \<open>Claims about signup and profile update\<close>









section \<open>Claims about friends\<close>






lemma status_friend_added: "status_of (friend_added P d e) = 200"
  by (simp add: friend_added_def)











section \<open>Rounding\<close>











section \<open>Claims about XP\<close>




























lemma js_plus_numbers: "json_sum (js_plus P (JNum x) (JNum e)) = json_num (fl P (x + e))"
  by (simp add: js_plus_def)










text \<open>
  Beside C4: the sum of the handler is a sum of doubles. A user with \<open>2 ^ 1023\<close> XP who
  earns \<open>2 ^ 1023\<close> more has a sum beyond the doubles, which is stored as \<open>null\<close> and
  read as no XP at all; the amended claim leaves such a sum out.
\<close>

lemma half_limit_twice: "half_limit + half_limit = of_int double_limit"
proof -
  have "(2::real) ^ 1024 = 2 ^ (1023 + 1)" by (simp only: numeral_plus_one) simp
  also have "\<dots> = 2 ^ 1023 * 2" by (simp only: power_add power_one_right)
  finally have "(2::real) ^ 1024 = 2 ^ 1023 + 2 ^ 1023" by (simp only: mult_2_right)
  moreover have "of_int double_limit = (2::real) ^ 1024"
    unfolding double_limit_def by (simp only: of_int_power of_int_numeral)
  ultimately show ?thesis by (simp only: half_limit_def)
qed

lemma half_limit_positive: "0 < half_limit"
  unfolding half_limit_def by (rule zero_less_power) simp

lemma xp_overflow:
  "xp_level huge_xp_store (js ''a'') = Some half_limit \<and> 0 \<le> half_limit \<and>
   \<not> sum_finite example_platform (js ''a'') (CompleteMission example_header complete_huge)
       huge_xp_store \<and>
   xp_level (snd (complete_mission example_platform example_env example_header complete_huge
      huge_xp_store)) (js ''a'') = Some 0"
proof -
  have "\<lfloor>half_limit + half_limit + 1 / 2\<rfloor> = double_limit"
    unfolding half_limit_twice by linarith
  then have "nearest_integer (half_limit + half_limit) = PlusInfinity"
    by (simp only: nearest_integer_def order_refl if_True)
  then have over: "fl example_platform (half_limit + half_limit) = PlusInfinity"
    by (simp add: example_platform_def)
  have n: "js ''missionId'' \<noteq> js ''xpEarned''" "js ''email'' \<noteq> js ''xpLevel''"
    "js ''lastMissionDate'' \<noteq> js ''xpLevel''"
    by (simp_all add: js_def)
  have cur: "xp_of (kv_get huge_xp_store (user_key (js ''a''))) = JNum half_limit"
    using half_limit_positive n
    by (simp add: huge_xp_store_def kv_get_def xp_of_def obj_def js_or_def)
  have earned: "get_prop complete_huge (js ''xpEarned'') = JNum half_limit"
    by (simp add: complete_huge_def)
  have sum: "json_sum (js_plus example_platform (JNum half_limit) (JNum half_limit)) = JNull"
    by (simp only: js_plus_numbers over json_num.simps)
  have 1: "xp_level huge_xp_store (js ''a'') = Some half_limit"
    by (simp add: xp_level_def cur)
  have 2: "\<not> sum_finite example_platform (js ''a'') (CompleteMission example_header complete_huge)
       huge_xp_store"
    by (simp add: example_authenticated cur earned sum)
  have nz: "half_limit \<noteq> 0"
    using half_limit_positive by simp
  have 3: "xp_level (snd (complete_mission example_platform example_env example_header
      complete_huge huge_xp_store)) (js ''a'') = Some 0"
    using nz over
    by (simp add: complete_mission_def example_authenticated complete_huge_def
      mark_completed_def huge_xp_store_def kv_get_def kv_set_def user_key_def missions_key_def
      obj_def js_def js_or_def js_plus_def xp_level_def xp_of_def Let_def)
  from 1 2 3 half_limit_positive show ?thesis by simp
qed
section \<open>Claims about mission generation\<close>






















lemma missions_of_response:
  "missions_of (Response 200 (obj [(''success'', JBool True), (''missions'', JArr ms)])) = ms"
  "get_prop (obj [(''success'', JBool True), (''missions'', JArr ms)]) (js ''success'') = JBool True"
  by (simp_all add: missions_of_def obj_def js_def)








text \<open>
  Beside the claim: when the write to the store throws, the catch block of the handler
  answers success with its own two missions.
\<close>

lemma generate_missions_store_fault:
  assumes "authenticate header = Inr userId"
  shows "length (missions_of (fst (generate_missions P E outcome [False, True] header s))) = 2"
  by (simp add: generate_missions_def generate_fallback_def faulty_def assms Let_def
      missions_of_response fallback_missions_def)


section \<open>Claims about the leaderboard\<close>




























































end
